theory Spec2Isabelle
  imports Main "HOL-Library.Sublist"
begin

section \<open>JavaScript values\<close>

text \<open>
  The viewer receives whatever \<^verbatim>\<open>response.json()\<close> decoded, so its input is a
  JavaScript value, not a typed report. Numbers are restricted to integers (the score
  is one); strings are lists of characters, the emoji of the sources being written as
  their UTF-8 bytes. An object is the list of its own properties in enumeration order,
  each key listed once.
\<close>

datatype jsval =
    JUndefined
  | JNull
  | JBool bool
  | JNum int
  | JStr string
  | JArr "jsval list"
  | JObj "(string \<times> jsval) list"

text \<open>
  What the sources can throw. \<open>TypeError\<close> is the engine's error for reading a
  property of \<^verbatim>\<open>null\<close>/\<^verbatim>\<open>undefined\<close> or calling something that is no function;
  \<open>InvalidChild\<close> is React's "Objects are not valid as a React child".
  \<open>NonNumberScore\<close> marks the one place where the model stops: a truthy score that
  is no number would be compared after coercion to a double.
\<close>

datatype error = TypeError | InvalidChild | NonNumberScore

definition ebind :: "error + 'a \<Rightarrow> ('a \<Rightarrow> error + 'b) \<Rightarrow> error + 'b" where
  "ebind m f = (case m of Inl e \<Rightarrow> Inl e | Inr x \<Rightarrow> f x)"

text \<open>Results of a loop body, in order; the first throw ends the loop.\<close>

fun collect :: "(error + 'a) list \<Rightarrow> error + 'a list" where
  "collect [] = Inr []"
| "collect (Inl e # rs) = Inl e"
| "collect (Inr x # rs) = (case collect rs of Inl e \<Rightarrow> Inl e | Inr xs \<Rightarrow> Inr (x # xs))"

text \<open>\<^verbatim>\<open>!v\<close> is \<open>\<not> truthy v\<close>.\<close>

fun truthy :: "jsval \<Rightarrow> bool" where
  "truthy JUndefined = False"
| "truthy JNull = False"
| "truthy (JBool b) = b"
| "truthy (JNum n) = (n \<noteq> 0)"
| "truthy (JStr s) = (s \<noteq> [])"
| "truthy (JArr vs) = True"
| "truthy (JObj kvs) = True"

text \<open>
  \<^verbatim>\<open>v.k\<close> for a value that is neither \<^verbatim>\<open>null\<close> nor \<^verbatim>\<open>undefined\<close>, and a name
  \<open>k\<close> that is no built-in property of strings and arrays (true of every name the
  sources read): the own property of an object, \<^verbatim>\<open>undefined\<close> otherwise.
  \<open>read_prop\<close> is the read in general, which throws on \<^verbatim>\<open>null\<close> and \<^verbatim>\<open>undefined\<close>.
\<close>

fun field :: "jsval \<Rightarrow> string \<Rightarrow> jsval" where
  "field (JObj kvs) k = (case map_of kvs k of Some v \<Rightarrow> v | None \<Rightarrow> JUndefined)"
| "field v k = JUndefined"

definition read_prop :: "jsval \<Rightarrow> string \<Rightarrow> error + jsval" where
  "read_prop v k = (if v = JNull \<or> v = JUndefined then Inl TypeError else Inr (field v k))"

text \<open>Decimal digits of an index or a score, as JavaScript prints small integers.\<close>

definition digit :: "nat \<Rightarrow> char" where
  "digit d = ''0123456789'' ! d"

fun show_nat :: "nat \<Rightarrow> string" where
  "show_nat n = (if n < 10 then [digit n] else show_nat (n div 10) @ [digit (n mod 10)])"

declare show_nat.simps [simp del]

definition show_int :: "int \<Rightarrow> string" where
  "show_int i = (if i < 0 then ''-'' @ show_nat (nat (- i)) else show_nat (nat i))"

text \<open>
  \<^verbatim>\<open>v.map((x, index) => f)\<close>: only an array has the method; on anything else the call
  throws.
\<close>

fun js_map :: "jsval \<Rightarrow> (jsval \<Rightarrow> nat \<Rightarrow> error + 'a) \<Rightarrow> error + 'a list" where
  "js_map (JArr vs) f = collect (map (\<lambda>(i, v). f v i) (enumerate 0 vs))"
| "js_map v f = Inl TypeError"

text \<open>
  \<^verbatim>\<open>Object.entries(v)\<close>: throws on \<^verbatim>\<open>null\<close> and \<^verbatim>\<open>undefined\<close>, is empty on
  booleans and numbers, and lists the indexed characters or elements of a string or an
  array.
\<close>

fun entries :: "jsval \<Rightarrow> error + (string \<times> jsval) list" where
  "entries JUndefined = Inl TypeError"
| "entries JNull = Inl TypeError"
| "entries (JBool b) = Inr []"
| "entries (JNum n) = Inr []"
| "entries (JStr s) = Inr (map (\<lambda>(i, c). (show_nat i, JStr [c])) (enumerate 0 s))"
| "entries (JArr vs) = Inr (map (\<lambda>(i, v). (show_nat i, v)) (enumerate 0 vs))"
| "entries (JObj kvs) = Inr kvs"

section \<open>React elements\<close>

text \<open>
  What a component returns: text written in the JSX, an embedded expression
  \<^verbatim>\<open>{v}\<close> holding any value, or an element with a tag, attributes and children.
  Of the attributes the model keeps \<^verbatim>\<open>className\<close>, \<^verbatim>\<open>key\<close>, \<^verbatim>\<open>onClick\<close> and
  \<^verbatim>\<open>disabled\<close>; the geometry of the two icons is left out.
\<close>

datatype 'h attr = ClassName string | Key string | OnClick 'h | Disabled bool

datatype 'h node =
    Text string
  | Expr jsval
  | Elem string "'h attr list" "'h node list"

text \<open>
  React turns an embedded value into text: \<^verbatim>\<open>null\<close>, \<^verbatim>\<open>undefined\<close> and booleans
  show nothing, strings and numbers show themselves (the empty string makes no text at
  all), an array shows its elements, and a plain object is refused.
\<close>

definition piece :: "string \<Rightarrow> string list" where
  "piece s = (if s = [] then [] else [s])"

fun expr_text :: "jsval \<Rightarrow> error + string list" where
  "expr_text JUndefined = Inr []"
| "expr_text JNull = Inr []"
| "expr_text (JBool b) = Inr []"
| "expr_text (JNum n) = Inr [show_int n]"
| "expr_text (JStr s) = Inr (piece s)"
| "expr_text (JArr vs) = map_sum id concat (collect (map expr_text vs))"
| "expr_text (JObj kvs) = Inl InvalidChild"

text \<open>
  Mounting an element tree: the pieces of visible text in document order, or the error
  React raises on the way.
\<close>

definition followed_by :: "error + 'a list \<Rightarrow> error + 'a list \<Rightarrow> error + 'a list" where
  "followed_by x y =
     (case x of Inl e \<Rightarrow> Inl e
      | Inr a \<Rightarrow> (case y of Inl e \<Rightarrow> Inl e | Inr b \<Rightarrow> Inr (a @ b)))"

fun mount :: "'h node \<Rightarrow> error + string list"
  and mount_list :: "'h node list \<Rightarrow> error + string list" where
  "mount (Text s) = Inr [s]"
| "mount (Expr v) = expr_text v"
| "mount (Elem t as cs) = mount_list cs"
| "mount_list [] = Inr []"
| "mount_list (c # cs) = followed_by (mount c) (mount_list cs)"

text \<open>How many elements of a tree carry a given tag.\<close>

fun count_tag :: "string \<Rightarrow> 'h node \<Rightarrow> nat"
  and count_tags :: "string \<Rightarrow> 'h node list \<Rightarrow> nat" where
  "count_tag t (Text s) = 0"
| "count_tag t (Expr v) = 0"
| "count_tag t (Elem t' as cs) = (if t' = t then 1 else 0) + count_tags t cs"
| "count_tags t [] = 0"
| "count_tags t (c # cs) = count_tag t c + count_tags t cs"

section \<open>Presentation policy of the report viewer (ReportDisplay.jsx)\<close>

text \<open>
  \<^verbatim>\<open>
  const getScoreColor = (score) => {
    if (score >= 80) return 'bg-green-500';
    if (score >= 60) return 'bg-yellow-500';
    return 'bg-red-500';
  };
  \<close>
  The score is an integer here; the result is the Tailwind class of the badge
  (green, yellow standing for amber, red).
\<close>

definition getScoreColor :: "int \<Rightarrow> string" where
  "getScoreColor score =
     (if score \<ge> 80 then ''bg-green-500''
      else if score \<ge> 60 then ''bg-yellow-500''
      else ''bg-red-500'')"

text \<open>
  \<^verbatim>\<open>
  const getPriorityColor = (priority) => {
    switch (priority) {
      case 'High':   return 'bg-red-100 text-red-800';
      case 'Medium': return 'bg-yellow-100 text-yellow-800';
      case 'Low':    return 'bg-green-100 text-green-800';
      default:       return 'bg-gray-100 text-gray-800';
    }
  };
  \<close>
  The \<^verbatim>\<open>switch\<close> compares with strict equality, so only the three strings match and
  every other value, string or not, takes the default.
\<close>

definition getPriorityColor :: "jsval \<Rightarrow> string" where
  "getPriorityColor priority =
     (if priority = JStr ''High'' then ''bg-red-100 text-red-800''
      else if priority = JStr ''Medium'' then ''bg-yellow-100 text-yellow-800''
      else if priority = JStr ''Low'' then ''bg-green-100 text-green-800''
      else ''bg-gray-100 text-gray-800'')"

section \<open>The report viewer (ReportDisplay.jsx)\<close>

text \<open>The four emoji of the headings, as UTF-8.\<close>

definition sparkles :: string where
  "sparkles = [CHR 0xE2, CHR 0x9C, CHR 0xA8]"

definition direct_hit :: string where
  "direct_hit = [CHR 0xF0, CHR 0x9F, CHR 0x8E, CHR 0xAF]"

definition gear :: string where
  "gear = [CHR 0xE2, CHR 0x9A, CHR 0x99, CHR 0xEF, CHR 0xB8, CHR 0x8F]"

definition chart_up :: string where
  "chart_up = [CHR 0xF0, CHR 0x9F, CHR 0x93, CHR 0x88]"

text \<open>The early return of the component.\<close>

definition placeholder :: "'h node" where
  "placeholder =
     Elem ''div'' [ClassName ''text-center text-gray-500'']
       [Text ''No SEO report data to display.'']"

text \<open>
  The callback of \<^verbatim>\<open>issues_found.map((issue, index) => <tr key={index}>...)\<close>. It reads
  \<^verbatim>\<open>issue.issue\<close>, \<^verbatim>\<open>issue.description\<close>, \<^verbatim>\<open>issue.priority\<close> and
  \<^verbatim>\<open>issue.recommended_action\<close>; each read throws when the entry is \<^verbatim>\<open>null\<close> or
  \<^verbatim>\<open>undefined\<close>.
\<close>

definition issue_row :: "jsval \<Rightarrow> nat \<Rightarrow> error + 'h node" where
  "issue_row issue index =
     (if issue = JNull \<or> issue = JUndefined then Inl TypeError
      else Inr
       (Elem ''tr'' [Key (show_nat index)]
         [Elem ''td'' [ClassName ''px-6 py-4 whitespace-nowrap'']
            [Elem ''div'' [ClassName ''text-sm font-medium text-gray-900'']
               [Expr (field issue ''issue'')],
             Elem ''div'' [ClassName ''text-xs text-gray-500'']
               [Expr (field issue ''description'')]],
          Elem ''td'' [ClassName ''px-6 py-4 whitespace-nowrap'']
            [Elem ''span''
               [ClassName (''px-2 inline-flex text-xs leading-5 font-semibold rounded-full ''
                  @ getPriorityColor (field issue ''priority''))]
               [Expr (field issue ''priority'')]],
          Elem ''td'' [ClassName ''px-6 py-4'']
            [Elem ''p'' [ClassName ''text-sm text-gray-600'']
               [Expr (field issue ''recommended_action'')]]]))"

text \<open>\<^verbatim>\<open>key.replace(/_/g, ' ')\<close>\<close>

definition replace_underscores :: "string \<Rightarrow> string" where
  "replace_underscores key = map (\<lambda>c. if c = CHR ''_'' then CHR '' '' else c) key"

text \<open>The callback of \<^verbatim>\<open>Object.entries(technical_seo_evaluation).map(([key, value]) => ...)\<close>.\<close>

definition tech_row :: "string \<times> jsval \<Rightarrow> 'h node" where
  "tech_row kv =
     (case kv of (key, val) \<Rightarrow>
       Elem ''div'' [Key key, ClassName ''flex justify-between py-2 border-b'']
         [Elem ''span'' [ClassName ''font-semibold text-gray-700 capitalize'']
            [Expr (JStr (replace_underscores key)), Text '':''],
          Elem ''span'' [ClassName ''text-gray-600''] [Expr val]])"

text \<open>The callback of \<^verbatim>\<open>keyword_strategy_suggestions.map((keyword, index) => ...)\<close>.\<close>

definition keyword_tag :: "jsval \<Rightarrow> nat \<Rightarrow> error + 'h node" where
  "keyword_tag keyword index =
     Inr (Elem ''span''
            [Key (show_nat index),
             ClassName ''px-3 py-1 bg-purple-200 text-purple-800 text-xs font-medium rounded-full'']
            [Expr keyword])"

text \<open>The download button, whose label and colour follow \<^verbatim>\<open>isLoading\<close>.\<close>

definition download_button :: "'h \<Rightarrow> bool \<Rightarrow> 'h node" where
  "download_button onDownload isLoading =
     Elem ''button''
       [OnClick onDownload, Disabled isLoading,
        ClassName (''w-full lg:w-auto mt-6 px-8 py-3 text-white font-semibold rounded-lg transition duration-150 shadow-md flex items-center justify-center ''
          @ (if isLoading then ''bg-indigo-400 cursor-not-allowed''
             else ''bg-indigo-600 hover:bg-indigo-700''))]
       [if isLoading then
          Elem ''Fragment'' []
            [Elem ''svg'' [ClassName ''animate-spin -ml-1 mr-3 h-5 w-5 text-white'']
               [Elem ''circle'' [ClassName ''opacity-25''] [],
                Elem ''path'' [ClassName ''opacity-75''] []],
             Text ''Generating PDF...'']
        else
          Elem ''Fragment'' []
            [Elem ''svg'' [ClassName ''w-5 h-5 mr-2''] [Elem ''path'' [] []],
             Text ''Download Professional SEO Report (PDF)'']]"

text \<open>
  The element the component returns once the score class, the table rows, the
  evaluation entries and the keyword tags are there. The arrays that the three
  \<^verbatim>\<open>map\<close> calls produce stand among the children as React lays them out, element by
  element.
\<close>

definition report_view ::
  "string \<Rightarrow> jsval \<Rightarrow> jsval \<Rightarrow> 'h node list \<Rightarrow> 'h node list \<Rightarrow> jsval \<Rightarrow> 'h node list
     \<Rightarrow> 'h \<Rightarrow> bool \<Rightarrow> 'h node" where
  "report_view score_class overall_seo_score summary rows evaluation ranking_forecast tags
     onDownload isLoading =
     Elem ''div'' [ClassName ''bg-white shadow-xl rounded-lg p-6 lg:p-10 mt-8 border border-gray-200'']
       [Elem ''div'' [ClassName ''flex justify-between items-start border-b pb-4 mb-6'']
          [Elem ''div'' []
             [Elem ''h1'' [ClassName ''text-3xl font-extrabold text-gray-900 flex items-center'']
                [Elem ''span'' [ClassName ''mr-2''] [Text sparkles],
                 Text '' AI SEO Audit Complete''],
              Elem ''p'' [ClassName ''text-sm text-gray-500 mt-1'']
                [Text ''Autonomous analysis powered by Gemini.'']],
           Elem ''div''
             [ClassName (''p-4 rounded-full '' @ score_class
                @ '' text-white font-bold text-4xl shadow-lg'')]
             [Expr overall_seo_score,
              Elem ''span'' [ClassName ''text-sm''] [Text ''/100'']]],
        Elem ''div'' [ClassName ''mb-8 p-4 bg-blue-50 border-l-4 border-blue-400 rounded-md'']
          [Elem ''h2'' [ClassName ''text-xl font-semibold text-blue-800 mb-2'']
             [Text ''Overall Summary''],
           Elem ''p'' [ClassName ''text-gray-700''] [Expr summary]],
        Elem ''h2'' [ClassName ''text-2xl font-bold text-gray-800 mb-4'']
          [Text (direct_hit @ '' Issues Found & Actions'')],
        Elem ''div'' [ClassName ''overflow-x-auto shadow-md rounded-lg mb-8'']
          [Elem ''table'' [ClassName ''min-w-full divide-y divide-gray-200'']
             [Elem ''thead'' [ClassName ''bg-gray-50'']
                [Elem ''tr'' []
                   [Elem ''th'' [ClassName ''px-6 py-3 text-left text-xs font-medium text-gray-500 uppercase tracking-wider'']
                      [Text ''Issue''],
                    Elem ''th'' [ClassName ''px-6 py-3 text-left text-xs font-medium text-gray-500 uppercase tracking-wider'']
                      [Text ''Priority''],
                    Elem ''th'' [ClassName ''px-6 py-3 text-left text-xs font-medium text-gray-500 uppercase tracking-wider'']
                      [Text ''Recommended Action'']]],
              Elem ''tbody'' [ClassName ''bg-white divide-y divide-gray-200''] rows]],
        Elem ''div'' [ClassName ''grid grid-cols-1 lg:grid-cols-2 gap-8 mb-8'']
          [Elem ''div'' []
             (Elem ''h2'' [ClassName ''text-2xl font-bold text-gray-800 mb-4'']
                [Text (gear @ '' Technical Evaluation'')]
              # evaluation),
           Elem ''div'' []
             [Elem ''h2'' [ClassName ''text-2xl font-bold text-gray-800 mb-4'']
                [Text (chart_up @ '' Ranking Forecast & Keywords'')],
              Elem ''div'' [ClassName ''mb-4 p-3 bg-indigo-50 rounded-lg'']
                [Elem ''h3'' [ClassName ''font-semibold text-indigo-800''] [Text ''Forecast:''],
                 Elem ''p'' [ClassName ''text-sm text-gray-700''] [Expr ranking_forecast]],
              Elem ''div'' [ClassName ''p-3 bg-purple-50 rounded-lg'']
                [Elem ''h3'' [ClassName ''font-semibold text-purple-800 mb-2'']
                   [Text ''Keyword Suggestions:''],
                 Elem ''div'' [ClassName ''flex flex-wrap gap-2''] tags]]],
        download_button onDownload isLoading]"

text \<open>
  The class of the score badge: \<open>getScoreColor\<close> of a number. A truthy score of
  another type is where the model stops.
\<close>

definition score_class :: "jsval \<Rightarrow> error + string" where
  "score_class v = (case v of JNum n \<Rightarrow> Inr (getScoreColor n) | _ \<Rightarrow> Inl NonNumberScore)"

text \<open>
  \<^verbatim>\<open>
  const ReportDisplay = ({ report, onDownload, isLoading }) => {
    if (!report || !report.overall_seo_score) {
      return <div className="text-center text-gray-500">No SEO report data to display.</div>;
    }
    const { overall_seo_score, summary, issues_found, keyword_strategy_suggestions,
            technical_seo_evaluation, ranking_forecast } = report;
    return ( ... );
  };
  \<close>
  The guard short-cuts: \<^verbatim>\<open>report.overall_seo_score\<close> is read only of a truthy
  report, where \<open>field\<close> is the read. The JSX evaluates the score class, the table
  rows, the evaluation entries and the keyword tags in this order.
\<close>

definition ReportDisplay :: "jsval \<Rightarrow> 'h \<Rightarrow> bool \<Rightarrow> error + 'h node" where
  "ReportDisplay report onDownload isLoading =
     (if \<not> truthy report \<or> \<not> truthy (field report ''overall_seo_score'')
      then Inr placeholder
      else
        ebind (score_class (field report ''overall_seo_score'')) (\<lambda>cls.
        ebind (js_map (field report ''issues_found'') issue_row) (\<lambda>rows.
        ebind (entries (field report ''technical_seo_evaluation'')) (\<lambda>es.
        ebind (js_map (field report ''keyword_strategy_suggestions'') keyword_tag) (\<lambda>tags.
          Inr (report_view cls
                 (field report ''overall_seo_score'')
                 (field report ''summary'')
                 rows
                 (map tech_row es)
                 (field report ''ranking_forecast'')
                 tags onDownload isLoading))))))"

text \<open>Rendering: the component runs, then React mounts what it returned.\<close>

definition visible_text :: "jsval \<Rightarrow> 'h \<Rightarrow> bool \<Rightarrow> error + string list" where
  "visible_text report onDownload isLoading =
     ebind (ReportDisplay report onDownload isLoading) mount"

text \<open>
  The reports the Validator lets through: an object with an integer score in
  \<open>[0, 100]\<close>, text for the summary and the forecast, a list of issues each with its
  three texts and a priority among High, Medium and Low, a mapping from check names to
  text, and a list of keyword texts.
\<close>

fun is_text :: "jsval \<Rightarrow> bool" where
  "is_text (JStr s) = True"
| "is_text v = False"

fun is_issue :: "jsval \<Rightarrow> bool" where
  "is_issue (JObj kvs) =
     (is_text (field (JObj kvs) ''issue'') \<and>
      is_text (field (JObj kvs) ''description'') \<and>
      is_text (field (JObj kvs) ''recommended_action'') \<and>
      field (JObj kvs) ''priority'' \<in> {JStr ''High'', JStr ''Medium'', JStr ''Low''})"
| "is_issue v = False"

fun is_score :: "jsval \<Rightarrow> bool" where
  "is_score (JNum n) = (0 \<le> n \<and> n \<le> 100)"
| "is_score v = False"

fun is_list_of :: "(jsval \<Rightarrow> bool) \<Rightarrow> jsval \<Rightarrow> bool" where
  "is_list_of P (JArr vs) = list_all P vs"
| "is_list_of P v = False"

fun is_text_mapping :: "jsval \<Rightarrow> bool" where
  "is_text_mapping (JObj kvs) = list_all (\<lambda>kv. is_text (snd kv)) kvs"
| "is_text_mapping v = False"

fun is_SeoReport :: "jsval \<Rightarrow> bool" where
  "is_SeoReport (JObj kvs) =
     (is_score (field (JObj kvs) ''overall_seo_score'') \<and>
      is_text (field (JObj kvs) ''summary'') \<and>
      is_list_of is_issue (field (JObj kvs) ''issues_found'') \<and>
      is_text_mapping (field (JObj kvs) ''technical_seo_evaluation'') \<and>
      is_list_of is_text (field (JObj kvs) ''keyword_strategy_suggestions'') \<and>
      is_text (field (JObj kvs) ''ranking_forecast''))"
| "is_SeoReport v = False"

text \<open>The list behind an array.\<close>

fun elements :: "jsval \<Rightarrow> jsval list" where
  "elements (JArr vs) = vs"
| "elements v = []"

text \<open>
  The text a report is to show, piece by piece and independently of the element tree,
  in the order of the layout: the header with the score, the summary, the issues table
  with its column headings and the four texts of each issue, the technical evaluation
  with one name and verdict per check, the forecast, the keywords, and the label of the
  download button, which depends on the loading flag.
\<close>

fun text_of :: "jsval \<Rightarrow> string" where
  "text_of (JStr s) = s"
| "text_of v = []"

fun number_of :: "jsval \<Rightarrow> int" where
  "number_of (JNum n) = n"
| "number_of v = 0"

fun properties :: "jsval \<Rightarrow> (string \<times> jsval) list" where
  "properties (JObj kvs) = kvs"
| "properties v = []"

definition issue_text :: "jsval \<Rightarrow> string list" where
  "issue_text i =
     piece (text_of (field i ''issue'')) @ piece (text_of (field i ''description'')) @
     piece (text_of (field i ''priority'')) @ piece (text_of (field i ''recommended_action''))"

definition evaluation_text :: "string \<times> jsval \<Rightarrow> string list" where
  "evaluation_text kv = piece (replace_underscores (fst kv)) @ ['':''] @ piece (text_of (snd kv))"

definition report_text :: "jsval \<Rightarrow> bool \<Rightarrow> string list" where
  "report_text report loading =
     [sparkles, '' AI SEO Audit Complete'', ''Autonomous analysis powered by Gemini.'',
      show_int (number_of (field report ''overall_seo_score'')), ''/100'',
      ''Overall Summary''] @
     piece (text_of (field report ''summary'')) @
     [direct_hit @ '' Issues Found & Actions'', ''Issue'', ''Priority'', ''Recommended Action''] @
     concat (map issue_text (elements (field report ''issues_found''))) @
     [gear @ '' Technical Evaluation''] @
     concat (map evaluation_text (properties (field report ''technical_seo_evaluation''))) @
     [chart_up @ '' Ranking Forecast & Keywords'', ''Forecast:''] @
     piece (text_of (field report ''ranking_forecast'')) @
     [''Keyword Suggestions:''] @
     concat (map (\<lambda>k. piece (text_of k)) (elements (field report ''keyword_strategy_suggestions''))) @
     [if loading then ''Generating PDF...'' else ''Download Professional SEO Report (PDF)'']"

text \<open>Whether a text is part of another, letter case aside.\<close>

definition lower_char :: "char \<Rightarrow> char" where
  "lower_char c =
     (case map_of (zip ''ABCDEFGHIJKLMNOPQRSTUVWXYZ'' ''abcdefghijklmnopqrstuvwxyz'') c of
        Some l \<Rightarrow> l
      | None \<Rightarrow> c)"

fun part_of :: "string \<Rightarrow> string \<Rightarrow> bool" where
  "part_of p [] = (p = [])"
| "part_of p (c # cs) = (prefix p (c # cs) \<or> part_of p cs)"

definition occurs_in :: "string \<Rightarrow> string \<Rightarrow> bool" where
  "occurs_in phrase txt = part_of (map lower_char phrase) (map lower_char txt)"

definition displays :: "string \<Rightarrow> error + string list \<Rightarrow> bool" where
  "displays phrase r = (case r of Inl e \<Rightarrow> False | Inr ts \<Rightarrow> list_ex (occurs_in phrase) ts)"

text \<open>Two validated reports to run the viewer on: one without issues, one with score 0.\<close>

definition report_72 :: jsval where
  "report_72 =
     JObj [(''overall_seo_score'', JNum 72),
           (''summary'', JStr ''Fine.''),
           (''issues_found'', JArr []),
           (''technical_seo_evaluation'', JObj []),
           (''keyword_strategy_suggestions'', JArr []),
           (''ranking_forecast'', JStr ''Stable.'')]"

definition report_0 :: jsval where
  "report_0 =
     JObj [(''overall_seo_score'', JNum 0),
           (''summary'', JStr ''Nothing works.''),
           (''issues_found'',
              JArr [JObj [(''issue'', JStr ''No title''),
                          (''description'', JStr ''The page has no title.''),
                          (''priority'', JStr ''High''),
                          (''recommended_action'', JStr ''Add a title.'')]]),
           (''technical_seo_evaluation'', JObj [(''mobile_friendly'', JStr ''no'')]),
           (''keyword_strategy_suggestions'', JArr [JStr ''seo'']),
           (''ranking_forecast'', JStr ''Poor.'')]"

section \<open>The URL form (InputForm.jsx)\<close>

text \<open>
  \<^verbatim>\<open>
  const handleSubmit = (e) => {
    e.preventDefault();
    setError(null);
    if (!url.startsWith('http://') && !url.startsWith('https://')) {
      setError('Please enter a valid URL starting with http:// or https://');
      return;
    }
    onAnalyze(url);
  };
  \<close>
  The handler reads the \<^verbatim>\<open>url\<close> state and acts on the world only through the calls
  listed here, in order.
\<close>

datatype form_event =
    Form_preventDefault
  | Form_setError "string option"
  | Form_onAnalyze string

definition handleSubmit :: "string \<Rightarrow> form_event list" where
  "handleSubmit url =
     [Form_preventDefault, Form_setError None] @
     (if \<not> prefix ''http://'' url \<and> \<not> prefix ''https://'' url
      then [Form_setError (Some ''Please enter a valid URL starting with http:// or https://'')]
      else [Form_onAnalyze url])"

text \<open>The form's \<^verbatim>\<open>error\<close> state after a run of calls.\<close>

fun form_error :: "string option \<Rightarrow> form_event list \<Rightarrow> string option" where
  "form_error e [] = e"
| "form_error e (Form_setError e' # evs) = form_error e' evs"
| "form_error e (ev # evs) = form_error e evs"

text \<open>
  The scheme of an absolute URL is what stands before its first colon; a text without a
  colon has none.
\<close>

definition url_scheme :: "string \<Rightarrow> string option" where
  "url_scheme u =
     (if CHR '':'' \<in> set u then Some (takeWhile (\<lambda>c. c \<noteq> CHR '':'') u) else None)"

section \<open>The dashboard (Dashboard.jsx)\<close>

text \<open>
  The three pieces of state of the component, with their initial values
  \<^verbatim>\<open>null\<close>, \<^verbatim>\<open>false\<close>, \<^verbatim>\<open>null\<close>.
\<close>

record dash_state =
  reportData :: jsval
  isLoading :: bool
  error :: "string option"

definition initial_state :: dash_state where
  "initial_state = \<lparr>reportData = JNull, isLoading = False, error = None\<rparr>"

text \<open>
  An awaited promise either rejects, throwing an error whose \<^verbatim>\<open>message\<close> is kept, or
  resolves. A response has its \<^verbatim>\<open>ok\<close> flag and the outcomes of reading its body as
  JSON, as text and as a blob. Once \<^verbatim>\<open>json()\<close> has read the body, browsers reject a
  following \<^verbatim>\<open>text()\<close>; the model leaves that outcome open.
\<close>

datatype 'a promise = Rejected string | Resolved 'a

record response =
  ok :: bool
  json_result :: "jsval promise"
  text_result :: "string promise"
  blob_result :: "string promise"

text \<open>
  What a handler does, in order: the state setters, the request sent (address and the
  value serialised into the body) and the file saved through the temporary link
  (its \<^verbatim>\<open>download\<close> name and the blob). Console output is left out.
\<close>

datatype event =
    SetIsLoading bool
  | SetReportData jsval
  | SetError "string option"
  | Fetch string jsval
  | SaveFile string string

fun apply_event :: "dash_state \<Rightarrow> event \<Rightarrow> dash_state" where
  "apply_event st (SetIsLoading b) = st\<lparr>isLoading := b\<rparr>"
| "apply_event st (SetReportData v) = st\<lparr>reportData := v\<rparr>"
| "apply_event st (SetError e) = st\<lparr>error := e\<rparr>"
| "apply_event st (Fetch a b) = st"
| "apply_event st (SaveFile n b) = st"

definition run :: "dash_state \<Rightarrow> event list \<Rightarrow> dash_state" where
  "run st evs = foldl apply_event st evs"

definition API_BASE_URL :: string where
  "API_BASE_URL = ''http://localhost:8000''"

text \<open>\<^verbatim>\<open>a || b\<close> on strings.\<close>

definition or_else :: "string \<Rightarrow> string \<Rightarrow> string" where
  "or_else a b = (if a \<noteq> [] then a else b)"

text \<open>
  The \<^verbatim>\<open>try\<close> block of \<^verbatim>\<open>handleAnalyze\<close>: the message of the error thrown, or the value
  handed to \<^verbatim>\<open>setReportData\<close>.
  \<^verbatim>\<open>
      const response = await fetch(`${API_BASE_URL}/analyze`, {...});
      const data = await response.json();
      if (!response.ok) {
        const errorMessage = await response.text();
        throw new Error(errorMessage || 'Failed to get SEO analysis from backend.');
      }
      setReportData(data.seo_report);
  \<close>
  \<open>engine_message\<close> is the text the engine gives the TypeError of reading
  \<^verbatim>\<open>seo_report\<close> of \<^verbatim>\<open>null\<close>.
\<close>

definition try_analyze :: "string \<Rightarrow> response promise \<Rightarrow> string + jsval" where
  "try_analyze engine_message fetched =
     (case fetched of
        Rejected m \<Rightarrow> Inl m
      | Resolved resp \<Rightarrow>
          (case json_result resp of
             Rejected m \<Rightarrow> Inl m
           | Resolved data \<Rightarrow>
               if \<not> ok resp then
                 (case text_result resp of
                    Rejected m \<Rightarrow> Inl m
                  | Resolved errorMessage \<Rightarrow>
                      Inl (or_else errorMessage ''Failed to get SEO analysis from backend.''))
               else
                 (case read_prop data ''seo_report'' of
                    Inl e \<Rightarrow> Inl engine_message
                  | Inr v \<Rightarrow> Inr v)))"

text \<open>
  \<^verbatim>\<open>
  const handleAnalyze = async (url) => {
    setIsLoading(true); setReportData(null); setError(null);
    try { ... }
    catch (err) { setError(err.message || 'An unexpected error occurred during analysis.'); }
    finally { setIsLoading(false); }
  };
  \<close>
\<close>

definition handleAnalyze :: "string \<Rightarrow> response promise \<Rightarrow> string \<Rightarrow> event list" where
  "handleAnalyze engine_message fetched url =
     [SetIsLoading True, SetReportData JNull, SetError None,
      Fetch (API_BASE_URL @ ''/analyze'') (JObj [(''url'', JStr url)])] @
     (case try_analyze engine_message fetched of
        Inl m \<Rightarrow> [SetError (Some (or_else m ''An unexpected error occurred during analysis.''))]
      | Inr v \<Rightarrow> [SetReportData v]) @
     [SetIsLoading False]"

text \<open>
  The clock read by \<^verbatim>\<open>new Date()\<close>, as its UTC fields (the month counted from 1),
  and \<^verbatim>\<open>toISOString\<close>: four digits for the years 0 to 9999, a sign and six digits for
  the others.
\<close>

record utc_time =
  full_year :: int
  month :: nat
  day :: nat
  hours :: nat
  minutes :: nat
  seconds :: nat
  milliseconds :: nat

definition pad :: "nat \<Rightarrow> string \<Rightarrow> string" where
  "pad n s = replicate (n - length s) CHR ''0'' @ s"

definition toISOString :: "utc_time \<Rightarrow> string" where
  "toISOString t =
     (if 0 \<le> full_year t \<and> full_year t \<le> 9999 then pad 4 (show_nat (nat (full_year t)))
      else (if full_year t < 0 then ''-'' else ''+'') @ pad 6 (show_nat (nat \<bar>full_year t\<bar>)))
     @ ''-'' @ pad 2 (show_nat (month t))
     @ ''-'' @ pad 2 (show_nat (day t))
     @ ''T'' @ pad 2 (show_nat (hours t))
     @ '':'' @ pad 2 (show_nat (minutes t))
     @ '':'' @ pad 2 (show_nat (seconds t))
     @ ''.'' @ pad 3 (show_nat (milliseconds t))
     @ ''Z''"

text \<open>
  The \<^verbatim>\<open>try\<close> block of \<^verbatim>\<open>handleDownload\<close>: the message of the error thrown, or the
  name and content of the file saved.
  \<^verbatim>\<open>
      const response = await fetch(`${API_BASE_URL}/download`, {...});
      if (!response.ok) {
        const errorText = await response.text();
        throw new Error(errorText || 'Failed to generate PDF.');
      }
      const blob = await response.blob();
      ...
      a.download = `SEO_Report_${new Date().toISOString().slice(0, 10)}.pdf`;
      ...
      a.click();
  \<close>
\<close>

definition try_download :: "response promise \<Rightarrow> utc_time \<Rightarrow> string + string \<times> string" where
  "try_download fetched now =
     (case fetched of
        Rejected m \<Rightarrow> Inl m
      | Resolved resp \<Rightarrow>
          if \<not> ok resp then
            (case text_result resp of
               Rejected m \<Rightarrow> Inl m
             | Resolved errorText \<Rightarrow> Inl (or_else errorText ''Failed to generate PDF.''))
          else
            (case blob_result resp of
               Rejected m \<Rightarrow> Inl m
             | Resolved blob \<Rightarrow>
                 Inr (''SEO_Report_'' @ take 10 (toISOString now) @ ''.pdf'', blob)))"

text \<open>
  \<^verbatim>\<open>
  const handleDownload = async () => {
    if (!reportData) {
      setError('No report data available to download.');
      return;
    }
    setError(null); setIsLoading(true);
    try { ... }
    catch (err) { setError(err.message || 'An error occurred during PDF download.'); }
    finally { setIsLoading(false); }
  };
  \<close>
\<close>

definition handleDownload :: "dash_state \<Rightarrow> response promise \<Rightarrow> utc_time \<Rightarrow> event list" where
  "handleDownload st fetched now =
     (if \<not> truthy (reportData st)
      then [SetError (Some ''No report data available to download.'')]
      else
        [SetError None, SetIsLoading True,
         Fetch (API_BASE_URL @ ''/download'') (JObj [(''seo_report'', reportData st)])] @
        (case try_download fetched now of
           Inl m \<Rightarrow> [SetError (Some (or_else m ''An error occurred during PDF download.''))]
         | Inr file \<Rightarrow> [SaveFile (fst file) (snd file)]) @
        [SetIsLoading False])"

text \<open>
  What the dashboard puts on screen: the error banner when \<^verbatim>\<open>error\<close> is truthy, the
  form or the report viewer depending on \<^verbatim>\<open>reportData\<close>, and whether the button
  for a new analysis is there.
\<close>

datatype main_view = Show_InputForm bool | Show_ReportDisplay jsval bool

record view =
  error_banner :: "string option"
  main :: main_view
  new_analysis_button :: bool

definition Dashboard :: "dash_state \<Rightarrow> view" where
  "Dashboard st =
     \<lparr>error_banner = (case error st of None \<Rightarrow> None | Some m \<Rightarrow> if m \<noteq> [] then Some m else None),
      main = (if \<not> truthy (reportData st) then Show_InputForm (isLoading st)
              else Show_ReportDisplay (reportData st) (isLoading st)),
      new_analysis_button = truthy (reportData st)\<rparr>"

text \<open>The calendar date in ISO form, \<^verbatim>\<open>YYYY-MM-DD\<close>, digit by digit.\<close>

definition two_digits :: "nat \<Rightarrow> string" where
  "two_digits n = [digit (n div 10 mod 10), digit (n mod 10)]"

definition four_digits :: "nat \<Rightarrow> string" where
  "four_digits n =
     [digit (n div 1000 mod 10), digit (n div 100 mod 10), digit (n div 10 mod 10), digit (n mod 10)]"

definition iso_date :: "utc_time \<Rightarrow> string" where
  "iso_date t =
     four_digits (nat (full_year t)) @ ''-'' @ two_digits (month t) @ ''-'' @ two_digits (day t)"

text \<open>
  A clock reading and two responses to run the handlers on: a failure of the analyze
  boundary and a delivered PDF.
\<close>

definition clock_2024 :: utc_time where
  "clock_2024 =
     \<lparr>full_year = 2024, month = 5, day = 17, hours = 9, minutes = 30, seconds = 0,
      milliseconds = 0\<rparr>"

definition response_500 :: response where
  "response_500 =
     \<lparr>ok = False,
      json_result = Resolved (JObj [(''detail'', JStr ''Analysis failed'')]),
      text_result = Rejected ''body stream already read'',
      blob_result = Rejected ''body stream already read''\<rparr>"

definition response_pdf :: response where
  "response_pdf =
     \<lparr>ok = True,
      json_result = Rejected ''Unexpected token % in JSON at position 0'',
      text_result = Resolved ''%PDF-1.4'',
      blob_result = Resolved ''%PDF-1.4''\<rparr>"

section \<open>The score check of the Report Validator\<close>

fun is_number :: "jsval \<Rightarrow> bool" where
  "is_number (JNum n) = True"
| "is_number v = False"

text \<open>
  Modelled from the spec: the error taxonomy of the Report Validator, which is not among
  the sources: malformed text, invalid JSON, or the name of the field that failed.
\<close>

datatype schema_error = Malformed | Invalid_json | Field_error string

text \<open>
  Modelled from the spec: the first field check of \<^verbatim>\<open>validate\<close> (step 3), the Report
  Validator not being among the sources. The spec has \<^verbatim>\<open>overall_seo_score\<close> coerce to
  an integer in \<open>[0, 100]\<close>, an out-of-range value being clamped and not rejected, and
  a non-numeric value fail with the error of that field. The value is the one found
  under the key, \<^verbatim>\<open>undefined\<close> when the key is missing; numbers are the integers.
\<close>

fun validate_overall_seo_score :: "jsval \<Rightarrow> schema_error + int" where
  "validate_overall_seo_score (JNum n) = Inr (max 0 (min 100 n))"
| "validate_overall_seo_score v = Inl (Field_error ''overall_seo_score'')"

section \<open>Facts about mounting\<close>

lemma followed_by_simps [simp]:
  "followed_by (Inl e) y = Inl e"
  "followed_by (Inr a) (Inl e) = Inl e"
  "followed_by (Inr a) (Inr b) = Inr (a @ b)"
  by (simp_all add: followed_by_def)

lemma followed_by_assoc:
  "followed_by (followed_by x y) z = followed_by x (followed_by y z)"
  by (simp add: followed_by_def split: sum.splits)

lemma followed_by_Nil [simp]:
  "followed_by (Inr []) y = y" "followed_by x (Inr []) = x"
  by (simp_all add: followed_by_def split: sum.splits)

lemma followed_by_merge:
  "followed_by (Inr a) (followed_by (Inr b) y) = followed_by (Inr (a @ b)) y"
  by (simp add: followed_by_def split: sum.splits)

lemma mount_download_button:
  "mount (download_button h l) =
     Inr [if l then ''Generating PDF...'' else ''Download Professional SEO Report (PDF)'']"
  by (simp add: download_button_def)

lemma mount_report_view:
  "mount (report_view c sc su rows ev fc tags h l) =
     followed_by (Inr [sparkles, '' AI SEO Audit Complete'', ''Autonomous analysis powered by Gemini.''])
    (followed_by (expr_text sc)
    (followed_by (Inr [''/100'', ''Overall Summary''])
    (followed_by (expr_text su)
    (followed_by (Inr [direct_hit @ '' Issues Found & Actions'', ''Issue'', ''Priority'',
                       ''Recommended Action''])
    (followed_by (mount_list rows)
    (followed_by (Inr [gear @ '' Technical Evaluation''])
    (followed_by (mount_list ev)
    (followed_by (Inr [chart_up @ '' Ranking Forecast & Keywords'', ''Forecast:''])
    (followed_by (expr_text fc)
    (followed_by (Inr [''Keyword Suggestions:''])
    (followed_by (mount_list tags)
       (Inr [if l then ''Generating PDF...''
             else ''Download Professional SEO Report (PDF)'']))))))))))))"
  unfolding report_view_def
  by (simp add: mount_download_button followed_by_assoc followed_by_merge)

lemma is_text_JStr: "is_text v \<Longrightarrow> \<exists>s. v = JStr s"
  by (cases v) simp_all

lemma issue_row_ok:
  assumes "is_issue v"
  shows "\<exists>row::'h node. issue_row v i = Inr row \<and> mount row = Inr (issue_text v) \<and>
           count_tag ''tr'' row = 1 \<and> count_tag ''td'' row = 3"
proof -
  from assms obtain kvs where v: "v = JObj kvs" by (cases v) simp_all
  from assms v obtain a b c d where f:
    "field v ''issue'' = JStr a" "field v ''description'' = JStr b"
    "field v ''recommended_action'' = JStr c" "field v ''priority'' = JStr d"
    using is_text_JStr by fastforce
  have "v \<noteq> JNull" "v \<noteq> JUndefined" using v by simp_all
  then show ?thesis
    by (simp add: issue_row_def issue_text_def f)
qed

lemma rows_ok:
  "list_all is_issue vs \<Longrightarrow>
   \<exists>rows::'h node list. collect (map (\<lambda>(i, v). issue_row v i) (enumerate k vs)) = Inr rows \<and>
      mount_list rows = Inr (concat (map issue_text vs)) \<and>
      count_tags ''tr'' rows = length vs \<and> count_tags ''td'' rows = 3 * length vs"
proof (induction vs arbitrary: k)
  case Nil
  then show ?case by simp
next
  case (Cons v vs)
  then have "is_issue v" and rest: "list_all is_issue vs" by simp_all
  from issue_row_ok [OF \<open>is_issue v\<close>, of k] obtain row :: "'h node" where
    row: "issue_row v k = Inr row" "mount row = Inr (issue_text v)"
         "count_tag ''tr'' row = 1" "count_tag ''td'' row = 3"
    by blast
  from Cons.IH [OF rest, of "Suc k"] obtain rows :: "'h node list" where
    rows: "collect (map (\<lambda>(i, v). issue_row v i) (enumerate (Suc k) vs)) = Inr rows"
          "mount_list rows = Inr (concat (map issue_text vs))"
          "count_tags ''tr'' rows = length vs" "count_tags ''td'' rows = 3 * length vs"
    by blast
  show ?case
    by (simp add: row rows)
qed

lemma keyword_tag_ok:
  assumes "is_text v"
  shows "\<exists>tag::'h node. keyword_tag v i = Inr tag \<and> mount tag = Inr (piece (text_of v)) \<and>
           count_tag ''tr'' tag = 0 \<and> count_tag ''td'' tag = 0"
proof -
  from assms obtain s where "v = JStr s" using is_text_JStr by blast
  then show ?thesis by (simp add: keyword_tag_def)
qed

lemma tags_ok:
  "list_all is_text vs \<Longrightarrow>
   \<exists>tags::'h node list. collect (map (\<lambda>(i, v). keyword_tag v i) (enumerate k vs)) = Inr tags \<and>
      mount_list tags = Inr (concat (map (\<lambda>v. piece (text_of v)) vs)) \<and>
      count_tags ''tr'' tags = 0 \<and> count_tags ''td'' tags = 0"
proof (induction vs arbitrary: k)
  case Nil
  then show ?case by simp
next
  case (Cons v vs)
  then have "is_text v" and rest: "list_all is_text vs" by simp_all
  from keyword_tag_ok [OF \<open>is_text v\<close>, of k] obtain tag :: "'h node" where
    tag: "keyword_tag v k = Inr tag" "mount tag = Inr (piece (text_of v))"
         "count_tag ''tr'' tag = 0" "count_tag ''td'' tag = 0"
    by blast
  from Cons.IH [OF rest, of "Suc k"] obtain tags :: "'h node list" where
    tags: "collect (map (\<lambda>(i, v). keyword_tag v i) (enumerate (Suc k) vs)) = Inr tags"
          "mount_list tags = Inr (concat (map (\<lambda>v. piece (text_of v)) vs))"
          "count_tags ''tr'' tags = 0" "count_tags ''td'' tags = 0"
    by blast
  show ?case
    by (simp add: tag tags)
qed

lemma tech_row_ok:
  assumes "is_text (snd kv)"
  shows "mount (tech_row kv :: 'h node) = Inr (evaluation_text kv) \<and>
           count_tag ''tr'' (tech_row kv :: 'h node) = 0 \<and>
           count_tag ''td'' (tech_row kv :: 'h node) = 0"
proof -
  obtain k v where kv: "kv = (k, v)" by (cases kv)
  with assms obtain s where "v = JStr s" using is_text_JStr by auto
  with kv show ?thesis by (simp add: tech_row_def evaluation_text_def)
qed

lemma tech_ok:
  "list_all (\<lambda>kv. is_text (snd kv)) kvs \<Longrightarrow>
   mount_list (map tech_row kvs :: 'h node list) = Inr (concat (map evaluation_text kvs)) \<and>
      count_tags ''tr'' (map tech_row kvs :: 'h node list) = 0 \<and>
      count_tags ''td'' (map tech_row kvs :: 'h node list) = 0"
proof (induction kvs)
  case Nil
  then show ?case by simp
next
  case (Cons kv kvs)
  then have one: "is_text (snd kv)" and rest: "list_all (\<lambda>kv. is_text (snd kv)) kvs"
    by simp_all
  from tech_row_ok [OF one] have
    row: "mount (tech_row kv :: 'h node) = Inr (evaluation_text kv)"
         "count_tag ''tr'' (tech_row kv :: 'h node) = 0"
         "count_tag ''td'' (tech_row kv :: 'h node) = 0"
    by blast+
  from Cons.IH [OF rest] have
    rows: "mount_list (map tech_row kvs :: 'h node list) = Inr (concat (map evaluation_text kvs))"
    "count_tags ''tr'' (map tech_row kvs :: 'h node list) = 0"
    "count_tags ''td'' (map tech_row kvs :: 'h node list) = 0"
    by blast+
  show ?case
    by (simp add: row rows)
qed

lemma mount_placeholder: "mount (placeholder :: 'h node) = Inr [''No SEO report data to display.'']"
  by (simp add: placeholder_def)

lemma report_view_tr:
  "count_tag ''tr'' (report_view c sc su rows ev fc tags h l) =
     1 + count_tags ''tr'' rows + count_tags ''tr'' ev + count_tags ''tr'' tags"
  by (simp add: report_view_def download_button_def)

lemma report_view_td:
  "count_tag ''td'' (report_view c sc su rows ev fc tags h l) =
     count_tags ''td'' rows + count_tags ''td'' ev + count_tags ''td'' tags"
  by (simp add: report_view_def download_button_def)

lemma visible_text_mount:
  "ReportDisplay report h l = Inr tree \<Longrightarrow> visible_text report h l = mount tree"
  by (simp add: visible_text_def ebind_def)

lemma validated_falsy_score:
  assumes "\<not> truthy (field report ''overall_seo_score'')"
  shows "ReportDisplay report h l = Inr placeholder"
    and "visible_text report h l = Inr [''No SEO report data to display.'']"
  using assms by (simp_all add: ReportDisplay_def visible_text_def ebind_def mount_placeholder)

lemma validated_report_view:
  assumes "is_SeoReport report" and "truthy (field report ''overall_seo_score'')"
  shows "\<exists>tree::'h node. ReportDisplay report h l = Inr tree \<and>
           mount tree = Inr (report_text report l) \<and>
           count_tag ''tr'' tree = 1 + length (elements (field report ''issues_found'')) \<and>
           count_tag ''td'' tree = 3 * length (elements (field report ''issues_found''))"
proof -
  from assms(1) obtain kvs where r: "report = JObj kvs" by (cases report) simp_all
  from assms(1) r obtain n where n: "field report ''overall_seo_score'' = JNum n"
    by (cases "field report ''overall_seo_score''") simp_all
  from assms(1) r obtain su fc where t: "field report ''summary'' = JStr su"
      "field report ''ranking_forecast'' = JStr fc"
    using is_text_JStr by fastforce
  from assms(1) r obtain vs where vs: "field report ''issues_found'' = JArr vs"
      "list_all is_issue vs"
    by (cases "field report ''issues_found''") simp_all
  from assms(1) r obtain ks where ks: "field report ''keyword_strategy_suggestions'' = JArr ks"
      "list_all is_text ks"
    by (cases "field report ''keyword_strategy_suggestions''") simp_all
  from assms(1) r obtain es where es: "field report ''technical_seo_evaluation'' = JObj es"
      "list_all (\<lambda>kv. is_text (snd kv)) es"
    by (cases "field report ''technical_seo_evaluation''") simp_all
  from rows_ok [OF vs(2), of 0] obtain rows :: "'h node list" where
    rows: "js_map (JArr vs) issue_row = Inr rows"
      "mount_list rows = Inr (concat (map issue_text vs))"
      "count_tags ''tr'' rows = length vs" "count_tags ''td'' rows = 3 * length vs"
    by auto
  from tags_ok [OF ks(2), of 0] obtain tags :: "'h node list" where
    tags: "js_map (JArr ks) keyword_tag = Inr tags"
      "mount_list tags = Inr (concat (map (\<lambda>v. piece (text_of v)) ks))"
      "count_tags ''tr'' tags = 0" "count_tags ''td'' tags = 0"
    by auto
  from tech_ok [OF es(2)] have
    ev: "mount_list (map tech_row es :: 'h node list) = Inr (concat (map evaluation_text es))"
      "count_tags ''tr'' (map tech_row es :: 'h node list) = 0"
      "count_tags ''td'' (map tech_row es :: 'h node list) = 0"
    by blast+
  let ?tree = "report_view (getScoreColor n) (JNum n) (JStr su) rows (map tech_row es)
                 (JStr fc) tags h l"
  have "truthy report" using r by simp
  with assms(2) have tree: "ReportDisplay report h l = Inr ?tree"
    by (simp add: ReportDisplay_def ebind_def score_class_def n t vs(1) ks(1) es(1) rows(1) tags(1)
          del: js_map.simps)
  have "mount ?tree = Inr (report_text report l)"
    by (simp add: mount_report_view report_text_def rows(2) ev(1) tags(2) n t vs(1) ks(1) es(1))
  moreover have "count_tag ''tr'' ?tree = 1 + length vs"
    by (simp add: report_view_tr rows tags ev)
  moreover have "count_tag ''td'' ?tree = 3 * length vs"
    by (simp add: report_view_td rows tags ev)
  ultimately show ?thesis
    using tree by (simp add: vs(1))
qed

lemma show_int_72: "show_int 72 = ''72''"
  by (simp add: show_int_def show_nat.simps digit_def)

lemma ReportDisplay_report_72:
  "ReportDisplay report_72 h l =
     Inr (report_view ''bg-yellow-500'' (JNum 72) (JStr ''Fine.'') [] [] (JStr ''Stable.'') [] h l)"
  by (simp add: report_72_def ReportDisplay_def ebind_def score_class_def getScoreColor_def)

lemma visible_text_report_72:
  "visible_text report_72 h l =
     Inr [sparkles, '' AI SEO Audit Complete'', ''Autonomous analysis powered by Gemini.'',
          ''72'', ''/100'', ''Overall Summary'', ''Fine.'',
          direct_hit @ '' Issues Found & Actions'', ''Issue'', ''Priority'',
          ''Recommended Action'', gear @ '' Technical Evaluation'',
          chart_up @ '' Ranking Forecast & Keywords'', ''Forecast:'', ''Stable.'',
          ''Keyword Suggestions:'',
          if l then ''Generating PDF...'' else ''Download Professional SEO Report (PDF)'']"
  by (simp add: visible_text_def ReportDisplay_report_72 ebind_def mount_report_view show_int_72
        piece_def)

lemma is_SeoReport_report_72: "is_SeoReport report_72"
  by (simp add: report_72_def)

lemma is_SeoReport_report_0: "is_SeoReport report_0"
  by (simp add: report_0_def)

section \<open>Score bands\<close>

text \<open>
  Claim C1. For every integer score the header colour is green exactly when the score
  is at least 80, amber (the yellow class) exactly when it is at least 60 and below 80,
  and red exactly when it is below 60.
\<close>

theorem getScoreColor_bands:
  "(getScoreColor s = ''bg-green-500'') = (80 \<le> s) \<and>
   (getScoreColor s = ''bg-yellow-500'') = (60 \<le> s \<and> s < 80) \<and>
   (getScoreColor s = ''bg-red-500'') = (s < 60)"
  by (simp add: getScoreColor_def)

section \<open>Priority badges\<close>

text \<open>
  Claim C2. The badge of an issue is red for the priority High, amber (yellow) for
  Medium, green for Low, and the neutral grey for every other priority string.
\<close>

theorem getPriorityColor_cases:
  "getPriorityColor (JStr ''High'') = ''bg-red-100 text-red-800'' \<and>
   getPriorityColor (JStr ''Medium'') = ''bg-yellow-100 text-yellow-800'' \<and>
   getPriorityColor (JStr ''Low'') = ''bg-green-100 text-green-800'' \<and>
   (p \<notin> {''High'', ''Medium'', ''Low''} \<longrightarrow>
      getPriorityColor (JStr p) = ''bg-gray-100 text-gray-800'')"
  by (simp add: getPriorityColor_def)

theorem getPriorityColor_cases_witness:
  "''urgent'' \<notin> {''High'', ''Medium'', ''Low''} \<and>
   getPriorityColor (JStr ''urgent'') = ''bg-gray-100 text-gray-800'' \<and>
   getPriorityColor (JStr ''High'') = ''bg-red-100 text-red-800''"
  using getPriorityColor_cases [of "''urgent''"] by simp

section \<open>Rendering a validated report\<close>

text \<open>
  Outside the validated reports rendering does fail: a report without its list of
  issues makes the component throw, and a summary that is an object is refused by React.
\<close>

lemma ReportDisplay_missing_issues:
  "ReportDisplay (JObj [(''overall_seo_score'', JNum 72)]) h l = Inl TypeError"
  by (simp add: ReportDisplay_def ebind_def score_class_def)

lemma visible_text_object_summary:
  "visible_text
     (JObj [(''overall_seo_score'', JNum 72),
            (''summary'', JObj []),
            (''issues_found'', JArr []),
            (''technical_seo_evaluation'', JObj []),
            (''keyword_strategy_suggestions'', JArr []),
            (''ranking_forecast'', JStr [])]) h l = Inl InvalidChild"
  by (simp add: visible_text_def ReportDisplay_def ebind_def score_class_def mount_report_view
        show_int_72)

text \<open>
  Claim C3, as the spec words it, asks for a "no issues found" text when the list of
  issues is empty. The viewer has none: for the validated report \<open>report_72\<close>, whose
  list of issues is empty, the text on screen is the one below and no piece of it says
  "no issues found", in whatever letter case.
\<close>

theorem no_issues_text_counterexample:
  "is_SeoReport report_72 \<and>
   field report_72 ''issues_found'' = JArr [] \<and>
   visible_text report_72 () False =
     Inr [sparkles, '' AI SEO Audit Complete'', ''Autonomous analysis powered by Gemini.'',
          ''72'', ''/100'', ''Overall Summary'', ''Fine.'',
          direct_hit @ '' Issues Found & Actions'', ''Issue'', ''Priority'',
          ''Recommended Action'', gear @ '' Technical Evaluation'',
          chart_up @ '' Ranking Forecast & Keywords'', ''Forecast:'', ''Stable.'',
          ''Keyword Suggestions:'', ''Download Professional SEO Report (PDF)''] \<and>
   \<not> displays ''no issues found'' (visible_text report_72 () False)"
proof -
  have "\<not> displays ''no issues found'' (visible_text report_72 () False)"
    by code_simp
  moreover have "field report_72 ''issues_found'' = JArr []"
    by (simp add: report_72_def)
  ultimately show ?thesis
    using is_SeoReport_report_72 by (simp add: visible_text_report_72)
qed

text \<open>
  Claim C3, amended. For every report the Validator accepts, rendering never fails: the
  component returns an element tree and React mounts it without error. When the score
  is not 0, the tree has one table row per issue besides the heading row, and three
  cells per issue. When the score is not 0 and the list of issues is empty, the visible
  text is exactly the header with the score, the summary, the heading and the three
  column headings of the issues table, then at once the technical evaluation, the
  forecast, the keywords and the button label: nothing is shown in place of the issues.
\<close>

theorem validated_report_renders:
  assumes "is_SeoReport report"
  shows "(\<exists>tree ts. ReportDisplay report h l = Inr tree \<and> visible_text report h l = Inr ts) \<and>
         (truthy (field report ''overall_seo_score'') \<longrightarrow>
            (\<exists>tree. ReportDisplay report h l = Inr tree \<and>
               count_tag ''tr'' tree = 1 + length (elements (field report ''issues_found'')) \<and>
               count_tag ''td'' tree = 3 * length (elements (field report ''issues_found'')))) \<and>
         (truthy (field report ''overall_seo_score'') \<and> field report ''issues_found'' = JArr [] \<longrightarrow>
            visible_text report h l =
              Inr ([sparkles, '' AI SEO Audit Complete'',
                    ''Autonomous analysis powered by Gemini.'',
                    show_int (number_of (field report ''overall_seo_score'')), ''/100'',
                    ''Overall Summary''] @
                   piece (text_of (field report ''summary'')) @
                   [direct_hit @ '' Issues Found & Actions'', ''Issue'', ''Priority'',
                    ''Recommended Action'', gear @ '' Technical Evaluation''] @
                   concat (map evaluation_text
                     (properties (field report ''technical_seo_evaluation''))) @
                   [chart_up @ '' Ranking Forecast & Keywords'', ''Forecast:''] @
                   piece (text_of (field report ''ranking_forecast'')) @
                   [''Keyword Suggestions:''] @
                   concat (map (\<lambda>k. piece (text_of k))
                     (elements (field report ''keyword_strategy_suggestions''))) @
                   [if l then ''Generating PDF...''
                    else ''Download Professional SEO Report (PDF)'']))"
proof (cases "truthy (field report ''overall_seo_score'')")
  case False
  with validated_falsy_score [of report h l] show ?thesis by simp
next
  case True
  from validated_report_view [OF assms True, of h l] obtain tree :: "'a node" where
    tree: "ReportDisplay report h l = Inr tree"
      "mount tree = Inr (report_text report l)"
      "count_tag ''tr'' tree = 1 + length (elements (field report ''issues_found''))"
      "count_tag ''td'' tree = 3 * length (elements (field report ''issues_found''))"
    by blast
  have shown: "visible_text report h l = Inr (report_text report l)"
    using tree(1,2) by (simp add: visible_text_mount)
  have "report_text report l =
      [sparkles, '' AI SEO Audit Complete'', ''Autonomous analysis powered by Gemini.'',
       show_int (number_of (field report ''overall_seo_score'')), ''/100'',
       ''Overall Summary''] @
      piece (text_of (field report ''summary'')) @
      [direct_hit @ '' Issues Found & Actions'', ''Issue'', ''Priority'',
       ''Recommended Action'', gear @ '' Technical Evaluation''] @
      concat (map evaluation_text (properties (field report ''technical_seo_evaluation''))) @
      [chart_up @ '' Ranking Forecast & Keywords'', ''Forecast:''] @
      piece (text_of (field report ''ranking_forecast'')) @
      [''Keyword Suggestions:''] @
      concat (map (\<lambda>k. piece (text_of k))
        (elements (field report ''keyword_strategy_suggestions''))) @
      [if l then ''Generating PDF...'' else ''Download Professional SEO Report (PDF)'']"
    if "field report ''issues_found'' = JArr []"
    using that by (simp add: report_text_def)
  with shown tree show ?thesis by auto
qed

theorem validated_report_renders_witness:
  "is_SeoReport report_72 \<and> truthy (field report_72 ''overall_seo_score'') \<and>
   field report_72 ''issues_found'' = JArr [] \<and>
   (\<exists>tree. ReportDisplay report_72 () False = Inr tree \<and>
      count_tag ''tr'' tree = 1 \<and> count_tag ''td'' tree = 0) \<and>
   visible_text report_72 () False =
     Inr [sparkles, '' AI SEO Audit Complete'', ''Autonomous analysis powered by Gemini.'',
          ''72'', ''/100'', ''Overall Summary'', ''Fine.'',
          direct_hit @ '' Issues Found & Actions'', ''Issue'', ''Priority'',
          ''Recommended Action'', gear @ '' Technical Evaluation'',
          chart_up @ '' Ranking Forecast & Keywords'', ''Forecast:'', ''Stable.'',
          ''Keyword Suggestions:'', ''Download Professional SEO Report (PDF)'']"
proof -
  have score: "truthy (field report_72 ''overall_seo_score'')"
    by (simp add: report_72_def)
  have issues: "field report_72 ''issues_found'' = JArr []"
    by (simp add: report_72_def)
  from validated_report_renders [OF is_SeoReport_report_72, of "()" False] score issues
  have "\<exists>tree. ReportDisplay report_72 () False = Inr tree \<and>
      count_tag ''tr'' tree = 1 \<and> count_tag ''td'' tree = 0"
    by auto
  then show ?thesis
    using is_SeoReport_report_72 score issues by (simp add: visible_text_report_72)
qed

section \<open>Rendering twice\<close>

text \<open>
  Claim C4. Rendering the same SeoReport twice yields the same visible text: for every
  validated report, two renderings with the same props (the download handlers being
  whatever closures the two renders of the dashboard made) both succeed and show the
  same pieces of text, and when the score is not 0 that text is \<open>report_text\<close>, fixed
  by the report and the loading flag alone.
\<close>

theorem rendering_twice:
  assumes "is_SeoReport report"
  shows "\<exists>ts. visible_text report (ha::'h) l = Inr ts \<and>
              visible_text report (hb::'h) l = Inr ts \<and>
              (truthy (field report ''overall_seo_score'') \<longrightarrow> ts = report_text report l)"
proof (cases "truthy (field report ''overall_seo_score'')")
  case False
  then show ?thesis
    using validated_falsy_score(2) [of report ha l] validated_falsy_score(2) [of report hb l]
    by simp
next
  case True
  have "visible_text report h l = Inr (report_text report l)" for h :: 'h
  proof -
    from validated_report_view [OF assms True, of h l] obtain tree :: "'h node" where
      "ReportDisplay report h l = Inr tree" "mount tree = Inr (report_text report l)"
      by blast
    then show ?thesis by (simp add: visible_text_mount)
  qed
  then show ?thesis by simp
qed

theorem rendering_twice_witness:
  "is_SeoReport report_72 \<and> truthy (field report_72 ''overall_seo_score'') \<and>
   visible_text report_72 ''first'' False = Inr (report_text report_72 False) \<and>
   visible_text report_72 ''second'' False = Inr (report_text report_72 False) \<and>
   report_text report_72 False =
     [sparkles, '' AI SEO Audit Complete'', ''Autonomous analysis powered by Gemini.'',
      ''72'', ''/100'', ''Overall Summary'', ''Fine.'',
      direct_hit @ '' Issues Found & Actions'', ''Issue'', ''Priority'',
      ''Recommended Action'', gear @ '' Technical Evaluation'',
      chart_up @ '' Ranking Forecast & Keywords'', ''Forecast:'', ''Stable.'',
      ''Keyword Suggestions:'', ''Download Professional SEO Report (PDF)'']"
proof -
  have score: "truthy (field report_72 ''overall_seo_score'')"
    by (simp add: report_72_def)
  from rendering_twice [OF is_SeoReport_report_72, where ha = "''first''" and hb = "''second''"
      and l = False] score
  have "visible_text report_72 ''first'' False = Inr (report_text report_72 False)"
    "visible_text report_72 ''second'' False = Inr (report_text report_72 False)"
    by auto
  moreover have "report_text report_72 False =
     [sparkles, '' AI SEO Audit Complete'', ''Autonomous analysis powered by Gemini.'',
      ''72'', ''/100'', ''Overall Summary'', ''Fine.'',
      direct_hit @ '' Issues Found & Actions'', ''Issue'', ''Priority'',
      ''Recommended Action'', gear @ '' Technical Evaluation'',
      chart_up @ '' Ranking Forecast & Keywords'', ''Forecast:'', ''Stable.'',
      ''Keyword Suggestions:'', ''Download Professional SEO Report (PDF)'']"
    by (simp add: report_text_def report_72_def piece_def show_int_72)
  ultimately show ?thesis
    using is_SeoReport_report_72 score by simp
qed

section \<open>The placeholder\<close>

text \<open>
  Claim C9. The component returns the placeholder "No SEO report data to display."
  exactly when the report is falsy (absent) or its \<^verbatim>\<open>overall_seo_score\<close> is falsy; in
  particular every report whose score is the number 0 gets the placeholder.
\<close>

theorem ReportDisplay_placeholder:
  "(ReportDisplay report h l = Inr placeholder) =
     (\<not> truthy report \<or> \<not> truthy (field report ''overall_seo_score'')) \<and>
   (field report ''overall_seo_score'' = JNum 0 \<longrightarrow> ReportDisplay report h l = Inr placeholder)"
proof -
  have iff: "(ReportDisplay report h l = Inr placeholder) =
     (\<not> truthy report \<or> \<not> truthy (field report ''overall_seo_score''))"
  proof (cases "\<not> truthy report \<or> \<not> truthy (field report ''overall_seo_score'')")
    case True
    then show ?thesis by (simp add: ReportDisplay_def)
  next
    case False
    have "report_view c s su rows ev fc tags h l \<noteq> placeholder" for c s su rows ev fc tags
      by (simp add: report_view_def placeholder_def)
    with False show ?thesis
      unfolding ReportDisplay_def ebind_def
      by (auto split: sum.splits)
  qed
  then show ?thesis by auto
qed

theorem ReportDisplay_placeholder_witness:
  "is_SeoReport report_0 \<and> field report_0 ''overall_seo_score'' = JNum 0 \<and>
   ReportDisplay report_0 () False = Inr placeholder"
proof -
  have zero: "field report_0 ''overall_seo_score'' = JNum 0"
    by (simp add: report_0_def)
  from ReportDisplay_placeholder [of report_0 "()" False] zero is_SeoReport_report_0
  show ?thesis by simp
qed

section \<open>Submitting a URL\<close>

lemma url_scheme_http: "prefix ''http://'' u \<Longrightarrow> url_scheme u = Some ''http''"
  by (auto simp add: url_scheme_def elim!: prefixE)

lemma url_scheme_https: "prefix ''https://'' u \<Longrightarrow> url_scheme u = Some ''https''"
  by (auto simp add: url_scheme_def elim!: prefixE)

text \<open>
  Claim C5. Submitting the form calls \<^verbatim>\<open>onAnalyze\<close> only with the URL typed in, and
  only if that URL begins with \<^verbatim>\<open>http://\<close> or \<^verbatim>\<open>https://\<close>, hence is absolute with
  the scheme http or https. For every URL that begins with neither, the form's error
  becomes the message asking for a valid URL and \<^verbatim>\<open>onAnalyze\<close> is not called.
\<close>

theorem handleSubmit_checks_scheme:
  "(Form_onAnalyze u \<in> set (handleSubmit url) \<longrightarrow>
      u = url \<and> (prefix ''http://'' url \<or> prefix ''https://'' url) \<and>
      url_scheme url \<in> {Some ''http'', Some ''https''}) \<and>
   (\<not> prefix ''http://'' url \<and> \<not> prefix ''https://'' url \<longrightarrow>
      form_error e (handleSubmit url) =
        Some ''Please enter a valid URL starting with http:// or https://'' \<and>
      (\<forall>v. Form_onAnalyze v \<notin> set (handleSubmit url)))"
proof -
  have "url_scheme url \<in> {Some ''http'', Some ''https''}"
    if "prefix ''http://'' url \<or> prefix ''https://'' url"
    using that url_scheme_http url_scheme_https by auto
  then show ?thesis
    by (auto simp add: handleSubmit_def)
qed

theorem handleSubmit_checks_scheme_witness:
  "Form_onAnalyze ''https://example.com'' \<in> set (handleSubmit ''https://example.com'') \<and>
   url_scheme ''https://example.com'' = Some ''https'' \<and>
   \<not> prefix ''http://'' ''example.com'' \<and> \<not> prefix ''https://'' ''example.com'' \<and>
   form_error None (handleSubmit ''example.com'') =
     Some ''Please enter a valid URL starting with http:// or https://'' \<and>
   Form_onAnalyze ''example.com'' \<notin> set (handleSubmit ''example.com'')"
  using handleSubmit_checks_scheme [of "''https://example.com''" "''https://example.com''" None]
    handleSubmit_checks_scheme [of "''example.com''" "''example.com''" None]
  by (simp add: handleSubmit_def url_scheme_def)

section \<open>The name of the downloaded file\<close>

lemma show_nat_small: "n < 10 \<Longrightarrow> show_nat n = [digit n]"
  by (simp add: show_nat.simps)

lemma show_nat_large: "10 \<le> n \<Longrightarrow> show_nat n = show_nat (n div 10) @ [digit (n mod 10)]"
  by (subst show_nat.simps) simp

lemma digit_0: "digit 0 = CHR ''0''"
  by (simp add: digit_def)

lemma show_nat_two: "10 \<le> n \<Longrightarrow> n < 100 \<Longrightarrow> show_nat n = [digit (n div 10), digit (n mod 10)]"
  by (simp add: show_nat_large show_nat_small)

lemma show_nat_three:
  "100 \<le> n \<Longrightarrow> n < 1000 \<Longrightarrow>
   show_nat n = [digit (n div 100), digit (n div 10 mod 10), digit (n mod 10)]"
proof -
  assume n: "100 \<le> n" "n < 1000"
  then have "10 \<le> n div 10" "n div 10 < 100" by simp_all
  then have "show_nat (n div 10) = [digit (n div 10 div 10), digit (n div 10 mod 10)]"
    by (rule show_nat_two)
  moreover have "n div 10 div 10 = n div 100"
    by (simp add: div_mult2_eq [symmetric])
  ultimately show ?thesis
    using n by (simp add: show_nat_large)
qed

lemma show_nat_four:
  "1000 \<le> n \<Longrightarrow> n < 10000 \<Longrightarrow>
   show_nat n = [digit (n div 1000), digit (n div 100 mod 10), digit (n div 10 mod 10),
                 digit (n mod 10)]"
proof -
  assume n: "1000 \<le> n" "n < 10000"
  then have "100 \<le> n div 10" "n div 10 < 1000" by simp_all
  then have "show_nat (n div 10) =
      [digit (n div 10 div 100), digit (n div 10 div 10 mod 10), digit (n div 10 mod 10)]"
    by (rule show_nat_three)
  moreover have "n div 10 div 100 = n div 1000" "n div 10 div 10 = n div 100"
    by (simp_all add: div_mult2_eq [symmetric])
  ultimately show ?thesis
    using n by (simp add: show_nat_large)
qed

lemma pad_short:
  "pad 2 [a] = [CHR ''0'', a]"
  "pad 2 [a, b] = [a, b]"
  "pad 4 [a] = [CHR ''0'', CHR ''0'', CHR ''0'', a]"
  "pad 4 [a, b] = [CHR ''0'', CHR ''0'', a, b]"
  "pad 4 [a, b, c] = [CHR ''0'', a, b, c]"
  "pad 4 [a, b, c, d] = [a, b, c, d]"
  by (simp_all add: pad_def numeral_eq_Suc)

lemma pad_two: "n < 100 \<Longrightarrow> pad 2 (show_nat n) = two_digits n"
proof -
  assume n: "n < 100"
  show ?thesis
  proof (cases "n < 10")
    case True
    then show ?thesis
      by (simp add: pad_short two_digits_def show_nat_small digit_0)
  next
    case False
    with n show ?thesis
      by (simp add: pad_short two_digits_def show_nat_two)
  qed
qed

lemma pad_four: "n < 10000 \<Longrightarrow> pad 4 (show_nat n) = four_digits n"
proof -
  assume n: "n < 10000"
  consider "n < 10" | "10 \<le> n" "n < 100" | "100 \<le> n" "n < 1000" | "1000 \<le> n"
    by linarith
  then show ?thesis
  proof cases
    case 1
    then show ?thesis
      by (simp add: pad_short four_digits_def show_nat_small digit_0)
  next
    case 2
    then show ?thesis
      by (simp add: pad_short four_digits_def show_nat_two digit_0)
  next
    case 3
    then show ?thesis
      by (simp add: pad_short four_digits_def show_nat_three digit_0)
  next
    case 4
    with n show ?thesis
      by (simp add: pad_short four_digits_def show_nat_four)
  qed
qed

lemma take_iso_date:
  assumes "0 \<le> full_year t" "full_year t \<le> 9999" "month t \<le> 12" "day t \<le> 31"
  shows "take 10 (toISOString t) = iso_date t"
proof -
  have "nat (full_year t) < 10000" "month t < 100" "day t < 100"
    using assms by simp_all
  then have "pad 4 (show_nat (nat (full_year t))) = four_digits (nat (full_year t))"
    "pad 2 (show_nat (month t)) = two_digits (month t)"
    "pad 2 (show_nat (day t)) = two_digits (day t)"
    by (simp_all add: pad_four pad_two)
  then show ?thesis
    using assms by (simp add: toISOString_def iso_date_def four_digits_def two_digits_def)
qed

lemma iso_date_clock_2024: "iso_date clock_2024 = ''2024-05-17''"
  by (simp add: iso_date_def clock_2024_def four_digits_def two_digits_def digit_def)

text \<open>
  Claim C6. In a successful download (a report is stored, the request resolves with an
  OK response and its blob arrives) the handler saves exactly one file, named
  \<^verbatim>\<open>SEO_Report_\<close>, the current UTC date as \<^verbatim>\<open>YYYY-MM-DD\<close>, \<^verbatim>\<open>.pdf\<close>; the date part has
  ten characters. The clock is any date whose year has at most four digits.
\<close>

theorem download_filename:
  assumes "truthy (reportData st)"
    and "fetched = Resolved resp" and "ok resp" and "blob_result resp = Resolved blob"
    and "0 \<le> full_year now" and "full_year now \<le> 9999"
    and "month now \<le> 12" and "day now \<le> 31"
  shows "handleDownload st fetched now =
           [SetError None, SetIsLoading True,
            Fetch (API_BASE_URL @ ''/download'') (JObj [(''seo_report'', reportData st)]),
            SaveFile (''SEO_Report_'' @ iso_date now @ ''.pdf'') blob,
            SetIsLoading False] \<and>
         length (iso_date now) = 10"
proof -
  have "take 10 (toISOString now) = iso_date now"
    using assms(5-8) by (rule take_iso_date)
  then have "try_download fetched now = Inr (''SEO_Report_'' @ iso_date now @ ''.pdf'', blob)"
    using assms(2-4) by (simp add: try_download_def)
  moreover have "length (iso_date now) = 10"
    by (simp add: iso_date_def four_digits_def two_digits_def)
  ultimately show ?thesis
    using assms(1) by (simp add: handleDownload_def)
qed

theorem download_filename_witness:
  "truthy (reportData (initial_state\<lparr>reportData := report_72\<rparr>)) \<and>
   ok response_pdf \<and> blob_result response_pdf = Resolved ''%PDF-1.4'' \<and>
   0 \<le> full_year clock_2024 \<and> full_year clock_2024 \<le> 9999 \<and>
   month clock_2024 \<le> 12 \<and> day clock_2024 \<le> 31 \<and>
   handleDownload (initial_state\<lparr>reportData := report_72\<rparr>) (Resolved response_pdf) clock_2024 =
     [SetError None, SetIsLoading True,
      Fetch ''http://localhost:8000/download'' (JObj [(''seo_report'', report_72)]),
      SaveFile ''SEO_Report_2024-05-17.pdf'' ''%PDF-1.4'',
      SetIsLoading False]"
proof -
  have h: "truthy (reportData (initial_state\<lparr>reportData := report_72\<rparr>))"
    "ok response_pdf" "blob_result response_pdf = Resolved ''%PDF-1.4''"
    "0 \<le> full_year clock_2024" "full_year clock_2024 \<le> 9999"
    "month clock_2024 \<le> 12" "day clock_2024 \<le> 31"
    by (simp_all add: report_72_def response_pdf_def clock_2024_def)
  from download_filename [OF h(1) refl h(2-7)] h
  show ?thesis
    by (simp add: iso_date_clock_2024 API_BASE_URL_def)
qed

section \<open>A failed analysis\<close>

lemma or_else_nonempty: "b \<noteq> [] \<Longrightarrow> or_else a b \<noteq> []"
  by (simp add: or_else_def)

lemma try_analyze_failure:
  assumes "fetched = Rejected m \<or> (fetched = Resolved resp \<and> \<not> ok resp)"
  shows "\<exists>thrown. try_analyze em fetched = Inl thrown"
  using assms by (auto simp add: try_analyze_def split: promise.splits)

text \<open>
  Claim C7. Whenever the request of \<^verbatim>\<open>handleAnalyze\<close> rejects, or the response has a
  non-success status, or anything else in the \<^verbatim>\<open>try\<close> block throws, the handler ends
  with no report stored (\<^verbatim>\<open>reportData\<close> is \<^verbatim>\<open>null\<close>), not loading, and the error set
  to a non-empty text: the message of the error thrown, or the fixed sentence when that
  message is empty. The dashboard then shows that text in the banner and the form, not
  the report viewer.
\<close>

theorem handleAnalyze_failure:
  assumes "fetched = Rejected m \<or> (fetched = Resolved resp \<and> \<not> ok resp) \<or>
           try_analyze em fetched = Inl m"
  shows "\<exists>thrown detail.
           try_analyze em fetched = Inl thrown \<and>
           detail = or_else thrown ''An unexpected error occurred during analysis.'' \<and>
           detail \<noteq> [] \<and>
           run st (handleAnalyze em fetched u) =
             \<lparr>reportData = JNull, isLoading = False, error = Some detail\<rparr> \<and>
           Dashboard (run st (handleAnalyze em fetched u)) =
             \<lparr>error_banner = Some detail, main = Show_InputForm False,
              new_analysis_button = False\<rparr>"
proof -
  from assms obtain thrown where thrown: "try_analyze em fetched = Inl thrown"
    using try_analyze_failure by blast
  let ?detail = "or_else thrown ''An unexpected error occurred during analysis.''"
  have nonempty: "?detail \<noteq> []"
    by (rule or_else_nonempty) simp
  have final: "run st (handleAnalyze em fetched u) =
      \<lparr>reportData = JNull, isLoading = False, error = Some ?detail\<rparr>"
    by (simp add: handleAnalyze_def run_def thrown)
  have "Dashboard \<lparr>reportData = JNull, isLoading = False, error = Some ?detail\<rparr> =
      \<lparr>error_banner = Some ?detail, main = Show_InputForm False, new_analysis_button = False\<rparr>"
    using nonempty by (simp add: Dashboard_def)
  with thrown nonempty final show ?thesis
    by simp
qed

theorem handleAnalyze_failure_witness:
  "\<not> ok response_500 \<and>
   run initial_state (handleAnalyze ''Cannot read properties of null'' (Resolved response_500)
       ''https://example.com'') =
     \<lparr>reportData = JNull, isLoading = False, error = Some ''body stream already read''\<rparr> \<and>
   Dashboard (run initial_state (handleAnalyze ''Cannot read properties of null''
       (Resolved response_500) ''https://example.com'')) =
     \<lparr>error_banner = Some ''body stream already read'', main = Show_InputForm False,
      new_analysis_button = False\<rparr>"
proof -
  have bad: "\<not> ok response_500" by (simp add: response_500_def)
  have thrown: "try_analyze ''Cannot read properties of null'' (Resolved response_500) =
      Inl ''body stream already read''"
    by (simp add: try_analyze_def response_500_def)
  from handleAnalyze_failure [of "Resolved response_500" "''x''" response_500
      "''Cannot read properties of null''" initial_state "''https://example.com''"] bad
  obtain detail where
    "detail = or_else ''body stream already read'' ''An unexpected error occurred during analysis.''"
    "run initial_state (handleAnalyze ''Cannot read properties of null'' (Resolved response_500)
       ''https://example.com'') = \<lparr>reportData = JNull, isLoading = False, error = Some detail\<rparr>"
    "Dashboard (run initial_state (handleAnalyze ''Cannot read properties of null''
       (Resolved response_500) ''https://example.com'')) =
     \<lparr>error_banner = Some detail, main = Show_InputForm False, new_analysis_button = False\<rparr>"
    unfolding thrown by auto
  moreover have "or_else ''body stream already read''
      ''An unexpected error occurred during analysis.'' = ''body stream already read''"
    by (simp add: or_else_def)
  ultimately show ?thesis
    using bad by simp
qed

section \<open>Validating the score\<close>

lemma validate_score_number:
  "validate_overall_seo_score (JNum n) = Inr (if n < 0 then 0 else if 100 < n then 100 else n)"
  by simp

text \<open>
  Claim C8. A numeric \<^verbatim>\<open>overall_seo_score\<close> outside \<open>[0, 100]\<close> is accepted and
  clamped (to 0 below the range, to 100 above it), the result of a numeric score always
  lying in \<open>[0, 100]\<close>; a non-numeric value fails with the error of the field
  \<^verbatim>\<open>overall_seo_score\<close>.
\<close>

theorem validate_overall_seo_score_clamps:
  "(n < 0 \<or> 100 < n \<longrightarrow>
      validate_overall_seo_score (JNum n) = Inr (if n < 0 then 0 else 100)) \<and>
   (\<exists>k. validate_overall_seo_score (JNum n) = Inr k \<and> 0 \<le> k \<and> k \<le> 100) \<and>
   (\<not> is_number v \<longrightarrow> validate_overall_seo_score v = Inl (Field_error ''overall_seo_score''))"
proof -
  have "validate_overall_seo_score v = Inl (Field_error ''overall_seo_score'')"
    if "\<not> is_number v"
    using that by (cases v) simp_all
  then show ?thesis
    by (simp add: validate_score_number)
qed

theorem validate_overall_seo_score_clamps_witness:
  "validate_overall_seo_score (JNum 150) = Inr 100 \<and>
   validate_overall_seo_score (JNum (- 5)) = Inr 0 \<and>
   \<not> is_number (JStr ''N/A'') \<and>
   validate_overall_seo_score (JStr ''N/A'') = Inl (Field_error ''overall_seo_score'')"
  using validate_overall_seo_score_clamps [of 150 "JStr ''N/A''"]
    validate_overall_seo_score_clamps [of "- 5" "JStr ''N/A''"]
  by simp

section \<open>Downloading without a report\<close>

text \<open>
  Claim C10. When no report is stored, \<^verbatim>\<open>handleDownload\<close> does one thing: it sets the
  error to "No report data available to download.". It sends no request and never sets
  the loading flag, which keeps its value.
\<close>

theorem handleDownload_without_report:
  assumes "\<not> truthy (reportData st)"
  shows "handleDownload st fetched now =
           [SetError (Some ''No report data available to download.'')] \<and>
         (\<forall>a b. Fetch a b \<notin> set (handleDownload st fetched now)) \<and>
         SetIsLoading True \<notin> set (handleDownload st fetched now) \<and>
         run st (handleDownload st fetched now) =
           st\<lparr>error := Some ''No report data available to download.''\<rparr>"
  using assms by (simp add: handleDownload_def run_def)

theorem handleDownload_without_report_witness:
  "\<not> truthy (reportData initial_state) \<and>
   handleDownload initial_state (Rejected ''Failed to fetch'') clock_2024 =
     [SetError (Some ''No report data available to download.'')] \<and>
   isLoading (run initial_state
     (handleDownload initial_state (Rejected ''Failed to fetch'') clock_2024)) = False"
proof -
  have falsy: "\<not> truthy (reportData initial_state)"
    by (simp add: initial_state_def)
  from handleDownload_without_report [OF falsy, of "Rejected ''Failed to fetch''" clock_2024]
  have "handleDownload initial_state (Rejected ''Failed to fetch'') clock_2024 =
      [SetError (Some ''No report data available to download.'')]"
    and "run initial_state (handleDownload initial_state (Rejected ''Failed to fetch'') clock_2024) =
      initial_state\<lparr>error := Some ''No report data available to download.''\<rparr>"
    by blast+
  with falsy show ?thesis
    by (simp add: initial_state_def)
qed

end
